theory Spec2Isabelle
  imports Main "HOL-Library.Word"
begin

section \<open>Data model of OneButton\<close>

text \<open>
  The library targets the Arduino environment. The model fixes the integer widths of the
  classic AVR boards: \<^verbatim>\<open>int\<close> is 16 bits wide and \<^verbatim>\<open>unsigned long\<close> is 32 bits wide.
  Arithmetic on \<open>'a word\<close> wraps around, as the unsigned arithmetic of the source does.
\<close>

type_synonym c_int = "16 word"
type_synonym c_ulong = "32 word"

text \<open>
  A \<^verbatim>\<open>callbackFunction\<close> is a pointer to a \<^verbatim>\<open>void (void)\<close> function: a code address, with
  \<open>NULL\<close> the address 0. The test \<^verbatim>\<open>if (f)\<close> of the source is \<open>f \<noteq> NULL\<close>.
\<close>

type_synonym callbackFunction = nat

definition NULL :: callbackFunction where
  "NULL = 0"

text \<open>The two values \<^verbatim>\<open>digitalRead\<close> returns.\<close>

datatype level = LOW | HIGH

text \<open>
  Modelled from the spec: the macros \<^verbatim>\<open>PRESSED_STATE\<close>, \<^verbatim>\<open>CLICK_STATE\<close>,
  \<^verbatim>\<open>DOUBLE_CLICK_STATE\<close>, \<^verbatim>\<open>LONG_PRESS_START_STATE\<close>, \<^verbatim>\<open>DURING_LONG_PRESS_STATE\<close> and
  \<^verbatim>\<open>LONG_PRESS_STOP_STATE\<close> are declared in OneButton.h, which is not part of the sources at
  hand. The specification lists the event codes
  {None, Pressed, Click, DoubleClick, LongPressStart, DuringLongPress, LongPressStop}
  as distinct values; \<open>NO_EVENT\<close> stands for the literal 0 that \<^verbatim>\<open>finalState\<close> starts with.
\<close>

datatype event =
    NO_EVENT
  | PRESSED_STATE
  | CLICK_STATE
  | DOUBLE_CLICK_STATE
  | LONG_PRESS_START_STATE
  | DURING_LONG_PRESS_STATE
  | LONG_PRESS_STOP_STATE

text \<open>
  The member variables of the class. The types of the members come from their use in
  OneButton.cpp: the thresholds are set from \<^verbatim>\<open>int\<close> parameters, the times are
  \<^verbatim>\<open>unsigned long\<close>. The leading underscore of the source names is dropped.
\<close>

record OneButton =
  pin :: c_int
  clickTicks :: c_int
  pressTicks :: c_int
  lastActivityTime :: c_ulong
  buttonReleased :: level
  buttonPressed :: level
  isLongPressed :: bool
  state :: c_int
  startTime :: c_ulong
  clickFunc :: callbackFunction
  doubleClickFunc :: callbackFunction
  pressFunc :: callbackFunction
  longPressStartFunc :: callbackFunction
  longPressStopFunc :: callbackFunction
  duringLongPressFunc :: callbackFunction

section \<open>Initialization and default values\<close>

text \<open>
  The constructor assigns some of the members and leaves the others as they are. The
  argument \<open>storage\<close> is the content of the object's memory before the constructor runs:
  zero for an object of static storage duration, whatever was there before for an object on
  the stack or on the heap. The calls of \<^verbatim>\<open>pinMode\<close> and \<^verbatim>\<open>digitalWrite\<close> act on the hardware
  only and are left out.
\<close>

definition OneButton_ctor :: "c_int \<Rightarrow> c_int \<Rightarrow> OneButton \<Rightarrow> OneButton" where
  "OneButton_ctor pin' activeLow storage =
    (let b1 = storage\<lparr>pin := pin',
                      clickTicks := 250,
                      pressTicks := 600,
                      lastActivityTime := 0,
                      state := 0,
                      isLongPressed := False\<rparr>;
         b2 = (if activeLow \<noteq> 0
               then b1\<lparr>buttonReleased := HIGH, buttonPressed := LOW\<rparr>
               else b1\<lparr>buttonReleased := LOW, buttonPressed := HIGH\<rparr>)
     in b2\<lparr>doubleClickFunc := NULL,
           pressFunc := NULL,
           longPressStartFunc := NULL,
           longPressStopFunc := NULL,
           duringLongPressFunc := NULL\<rparr>)"

section \<open>Configuration and registration\<close>

definition setClickTicks :: "c_int \<Rightarrow> OneButton \<Rightarrow> OneButton" where
  "setClickTicks ticks b = b\<lparr>clickTicks := ticks\<rparr>"

definition setPressTicks :: "c_int \<Rightarrow> OneButton \<Rightarrow> OneButton" where
  "setPressTicks ticks b = b\<lparr>pressTicks := ticks\<rparr>"

definition getLastActivityTime :: "OneButton \<Rightarrow> c_ulong" where
  "getLastActivityTime b = lastActivityTime b"

definition attachClick :: "callbackFunction \<Rightarrow> OneButton \<Rightarrow> OneButton" where
  "attachClick newFunction b = b\<lparr>clickFunc := newFunction\<rparr>"

definition attachDoubleClick :: "callbackFunction \<Rightarrow> OneButton \<Rightarrow> OneButton" where
  "attachDoubleClick newFunction b = b\<lparr>doubleClickFunc := newFunction\<rparr>"

definition attachPress :: "callbackFunction \<Rightarrow> OneButton \<Rightarrow> OneButton" where
  "attachPress newFunction b = b\<lparr>pressFunc := newFunction\<rparr>"

definition attachLongPressStart :: "callbackFunction \<Rightarrow> OneButton \<Rightarrow> OneButton" where
  "attachLongPressStart newFunction b = b\<lparr>longPressStartFunc := newFunction\<rparr>"

definition attachLongPressStop :: "callbackFunction \<Rightarrow> OneButton \<Rightarrow> OneButton" where
  "attachLongPressStop newFunction b = b\<lparr>longPressStopFunc := newFunction\<rparr>"

definition attachDuringLongPress :: "callbackFunction \<Rightarrow> OneButton \<Rightarrow> OneButton" where
  "attachDuringLongPress newFunction b = b\<lparr>duringLongPressFunc := newFunction\<rparr>"

definition isLongPressed_query :: "OneButton \<Rightarrow> bool" where
  "isLongPressed_query b = isLongPressed b"

section \<open>The state machine\<close>

text \<open>
  \<^verbatim>\<open>if (f) f();\<close> The handlers are opaque to the library: what the model keeps of a call is
  its place in the sequence of calls a tick makes. A handler is taken not to write to the
  button object.
\<close>

definition invoke :: "callbackFunction \<Rightarrow> callbackFunction list" where
  "invoke f = (if f \<noteq> NULL then [f] else [])"

text \<open>
  One call of \<^verbatim>\<open>tick\<close>. The two readings of the environment, \<^verbatim>\<open>digitalRead(_pin)\<close> and
  \<^verbatim>\<open>millis()\<close>, are the arguments \<open>buttonLevel\<close> and \<open>now\<close>. The result is the returned
  \<^verbatim>\<open>finalState\<close>, the handlers called, in order, and the object after the call.
  In \<^verbatim>\<open>_startTime + _pressTicks\<close> the \<^verbatim>\<open>int\<close> operand is converted to \<^verbatim>\<open>unsigned long\<close>
  (sign extension, \<open>scast\<close>), the sum wraps, and the comparison is unsigned.
\<close>

definition tick :: "level \<Rightarrow> c_ulong \<Rightarrow> OneButton \<Rightarrow> event \<times> callbackFunction list \<times> OneButton" where
  "tick buttonLevel now b =
    (let (finalState, calls, b') =
      (if state b = 0 then
         (if buttonLevel = buttonPressed b
          then (PRESSED_STATE, [], b\<lparr>state := 1, startTime := now\<rparr>)
          else (NO_EVENT, [], b))
       else if state b = 1 then
         (if buttonLevel = buttonReleased b
          then (NO_EVENT, [], b\<lparr>state := 2\<rparr>)
          else if buttonLevel = buttonPressed b \<and> now > startTime b + scast (pressTicks b)
          then (LONG_PRESS_START_STATE,
                invoke (pressFunc b) @ invoke (longPressStartFunc b) @ invoke (duringLongPressFunc b),
                b\<lparr>isLongPressed := True, state := 6\<rparr>)
          else (NO_EVENT, [], b))
       else if state b = 2 then
         (if now > startTime b + scast (clickTicks b)
          then (CLICK_STATE, invoke (clickFunc b), b\<lparr>state := 0\<rparr>)
          else if buttonLevel = buttonPressed b
          then (NO_EVENT, [], b\<lparr>state := 3\<rparr>)
          else (NO_EVENT, [], b))
       else if state b = 3 then
         (if buttonLevel = buttonReleased b
          then (DOUBLE_CLICK_STATE, invoke (doubleClickFunc b), b\<lparr>state := 0\<rparr>)
          else (NO_EVENT, [], b))
       else if state b = 6 then
         (if buttonLevel = buttonReleased b
          then (LONG_PRESS_STOP_STATE, invoke (longPressStopFunc b),
                b\<lparr>isLongPressed := False, state := 0\<rparr>)
          else (DURING_LONG_PRESS_STATE, invoke (duringLongPressFunc b),
                b\<lparr>isLongPressed := True\<rparr>))
       else (NO_EVENT, [], b))
     in (finalState, calls,
         if finalState \<noteq> NO_EVENT then b'\<lparr>lastActivityTime := now\<rparr> else b'))"

section \<open>Driving the object\<close>

text \<open>
  What a host program can do with a constructed object: call \<^verbatim>\<open>tick\<close> with the readings of
  that moment, set a threshold, register a handler. \<open>run\<close> performs a sequence of such calls
  and collects the event of each tick, the handlers called, and the object at the end.
\<close>

datatype action =
    Tick level c_ulong
  | SetClickTicks c_int
  | SetPressTicks c_int
  | AttachClick callbackFunction
  | AttachDoubleClick callbackFunction
  | AttachPress callbackFunction
  | AttachLongPressStart callbackFunction
  | AttachLongPressStop callbackFunction
  | AttachDuringLongPress callbackFunction

fun exec :: "action \<Rightarrow> OneButton \<Rightarrow> event list \<times> callbackFunction list \<times> OneButton" where
  "exec (Tick buttonLevel now) b =
     (case tick buttonLevel now b of (finalState, calls, b') \<Rightarrow> ([finalState], calls, b'))"
| "exec (SetClickTicks ticks) b = ([], [], setClickTicks ticks b)"
| "exec (SetPressTicks ticks) b = ([], [], setPressTicks ticks b)"
| "exec (AttachClick f) b = ([], [], attachClick f b)"
| "exec (AttachDoubleClick f) b = ([], [], attachDoubleClick f b)"
| "exec (AttachPress f) b = ([], [], attachPress f b)"
| "exec (AttachLongPressStart f) b = ([], [], attachLongPressStart f b)"
| "exec (AttachLongPressStop f) b = ([], [], attachLongPressStop f b)"
| "exec (AttachDuringLongPress f) b = ([], [], attachDuringLongPress f b)"

fun run :: "action list \<Rightarrow> OneButton \<Rightarrow> event list \<times> callbackFunction list \<times> OneButton" where
  "run [] b = ([], [], b)"
| "run (a # as) b =
     (case exec a b of (events, calls, b') \<Rightarrow>
        (case run as b' of (events', calls', b'') \<Rightarrow> (events @ events', calls @ calls', b'')))"

text \<open>The three parts of what \<open>tick\<close>, \<open>exec\<close> and \<open>run\<close> return.\<close>

abbreviation emitted :: "'a \<times> 'b \<times> 'c \<Rightarrow> 'a" where
  "emitted r \<equiv> fst r"

abbreviation called :: "'a \<times> 'b \<times> 'c \<Rightarrow> 'b" where
  "called r \<equiv> fst (snd r)"

abbreviation object :: "'a \<times> 'b \<times> 'c \<Rightarrow> 'c" where
  "object r \<equiv> snd (snd r)"

text \<open>The four members that make up the interaction state of the specification.\<close>

definition interaction_state :: "OneButton \<Rightarrow> c_int \<times> c_ulong \<times> bool \<times> c_ulong" where
  "interaction_state b = (state b, startTime b, isLongPressed b, lastActivityTime b)"

text \<open>
  Two contents of memory to construct an object in: zeroed memory, as for an object of static
  storage duration, and memory that holds what an earlier use left there.
\<close>

definition static_storage :: OneButton where
  "static_storage =
    \<lparr>pin = 0, clickTicks = 0, pressTicks = 0, lastActivityTime = 0,
     buttonReleased = LOW, buttonPressed = LOW, isLongPressed = False, state = 0,
     startTime = 0, clickFunc = NULL, doubleClickFunc = NULL, pressFunc = NULL,
     longPressStartFunc = NULL, longPressStopFunc = NULL, duringLongPressFunc = NULL\<rparr>"

definition stale_storage :: OneButton where
  "stale_storage =
    \<lparr>pin = 77, clickTicks = 23205, pressTicks = 4095, lastActivityTime = 305419896,
     buttonReleased = HIGH, buttonPressed = HIGH, isLongPressed = True, state = 4,
     startTime = 2271560481, clickFunc = 4660, doubleClickFunc = 22136, pressFunc = 39612,
     longPressStartFunc = 57072, longPressStopFunc = 3054, duringLongPressFunc = 64206\<rparr>"

text \<open>
  An active-high button on pin 2 (HIGH is pressed, LOW is released), constructed in zeroed
  memory, and the same button constructed in stale memory.
\<close>

definition example_button :: OneButton where
  "example_button = OneButton_ctor 2 0 static_storage"

definition stack_button :: OneButton where
  "stack_button = OneButton_ctor 2 0 stale_storage"

lemmas example_defs =
  example_button_def stack_button_def static_storage_def stale_storage_def OneButton_ctor_def

text \<open>The invariant of the state machine: a known state, and the flag mirrors state 6.\<close>

definition button_inv :: "OneButton \<Rightarrow> bool" where
  "button_inv b = ((state b = 0 \<or> state b = 1 \<or> state b = 2 \<or> state b = 3 \<or> state b = 6) \<and>
                   isLongPressed b = (state b = 6))"

section \<open>Auxiliary facts\<close>

lemmas config_defs =
  setClickTicks_def setPressTicks_def attachClick_def attachDoubleClick_def attachPress_def
  attachLongPressStart_def attachLongPressStop_def attachDuringLongPress_def

lemma ctor_inv: "button_inv (OneButton_ctor p a storage)"
  by (simp add: button_inv_def OneButton_ctor_def Let_def)

lemma tick_inv: "button_inv b \<Longrightarrow> button_inv (snd (snd (tick l t b)))"
  by (auto simp: button_inv_def tick_def Let_def)

lemma exec_inv: "button_inv b \<Longrightarrow> button_inv (snd (snd (exec a b)))"
  by (cases a) (simp_all add: tick_inv case_prod_beta, simp_all add: button_inv_def config_defs)

lemma run_inv: "button_inv b \<Longrightarrow> button_inv (snd (snd (run as b)))"
  by (induction as arbitrary: b) (simp_all add: exec_inv case_prod_beta del: exec.simps)

lemma run_append:
  "run (xs @ ys) b =
    (case run xs b of (es, cs, b') \<Rightarrow>
       (case run ys b' of (es', cs', b'') \<Rightarrow> (es @ es', cs @ cs', b'')))"
  by (induction xs arbitrary: b) (simp_all add: case_prod_beta del: exec.simps)

lemma tick_lastActivityTime:
  "lastActivityTime (snd (snd (tick l t b))) =
     (if fst (tick l t b) = NO_EVENT then lastActivityTime b else t)"
  by (simp add: tick_def Let_def)

lemma exec_quiet_lastActivityTime:
  assumes "\<forall>e\<in>set (fst (exec a b)). e = NO_EVENT"
  shows "lastActivityTime (snd (snd (exec a b))) = lastActivityTime b"
  using assms by (cases a) (simp_all add: tick_lastActivityTime case_prod_beta config_defs)

lemma run_quiet_lastActivityTime:
  assumes "\<forall>e\<in>set (fst (run as b)). e = NO_EVENT"
  shows "lastActivityTime (snd (snd (run as b))) = lastActivityTime b"
  using assms
proof (induction as arbitrary: b)
  case Nil
  then show ?case by simp
next
  case (Cons a as)
  have head: "\<forall>e\<in>set (fst (exec a b)). e = NO_EVENT"
    using Cons.prems by (simp add: case_prod_beta del: exec.simps)
  have rest: "\<forall>e\<in>set (fst (run as (snd (snd (exec a b))))). e = NO_EVENT"
    using Cons.prems by (simp add: case_prod_beta del: exec.simps)
  show ?case
    using Cons.IH [OF rest] exec_quiet_lastActivityTime [OF head]
    by (simp add: case_prod_beta del: exec.simps)
qed

section \<open>The click window\<close>

lemma hold_in_state_1:
  assumes "state c = 1" and "held \<noteq> buttonReleased c"
    and "\<forall>t\<in>set moments. \<not> t > startTime c + scast (pressTicks c)"
  shows "run (map (Tick held) moments) c = (replicate (length moments) NO_EVENT, [], c)"
  using assms(3)
proof (induction moments)
  case Nil
  show ?case by simp
next
  case (Cons t moments)
  have "\<not> t > startTime c + scast (pressTicks c)"
    using Cons.prems by simp
  then have "tick held t c = (NO_EVENT, [], c)"
    using assms(1,2) by (simp add: tick_def Let_def)
  moreover have "run (map (Tick held) moments) c = (replicate (length moments) NO_EVENT, [], c)"
    using Cons.IH Cons.prems by simp
  ultimately show ?case by simp
qed

lemma wait_in_state_2:
  assumes "state c = 2" and "idle \<noteq> buttonPressed c"
    and "\<forall>t\<in>set moments. \<not> t > startTime c + scast (clickTicks c)"
  shows "run (map (Tick idle) moments) c = (replicate (length moments) NO_EVENT, [], c)"
  using assms(3)
proof (induction moments)
  case Nil
  show ?case by simp
next
  case (Cons t moments)
  have "\<not> t > startTime c + scast (clickTicks c)"
    using Cons.prems by simp
  then have "tick idle t c = (NO_EVENT, [], c)"
    using assms(1,2) by (simp add: tick_def Let_def)
  moreover have "run (map (Tick idle) moments) c = (replicate (length moments) NO_EVENT, [], c)"
    using Cons.IH Cons.prems by simp
  ultimately show ?case by simp
qed

text \<open>
  C1 (as the code has it). The click-window timer is not re-based on the release after the
  first click. From state 0 a pressed sample at \<open>t0\<close> stores \<open>t0\<close> in \<open>startTime\<close>. Ticks that
  see the button held before the long-press threshold, the tick that sees the release and goes
  from state 1 (press detected) to state 2 (waiting for the second press), and ticks that wait
  in state 2 within the window all leave \<open>startTime\<close> at \<open>t0\<close>: the release tick changes the
  state only, returns no event and calls no handler. The tick after them reports the click
  exactly when its time is beyond \<open>t0 + clickTicks\<close>: the click window is measured from the
  start of the press, whenever the release was. The release tick from any object in state 1
  changes the state only, and the tick after it compares against the unchanged \<open>startTime\<close>.
\<close>

theorem C1_startTime_kept_on_release:
  assumes "state b = 0" and "buttonPressed b \<noteq> buttonReleased b"
    and "\<forall>t\<in>set held. \<not> t > t0 + scast (pressTicks b)"
    and "\<forall>t\<in>set waits. \<not> t > t0 + scast (clickTicks b)"
  shows "run (Tick (buttonPressed b) t0 # map (Tick (buttonPressed b)) held
              @ Tick (buttonReleased b) t1 # map (Tick (buttonReleased b)) waits) b
          = (PRESSED_STATE # replicate (length held) NO_EVENT
               @ NO_EVENT # replicate (length waits) NO_EVENT,
             [],
             b\<lparr>state := 2, startTime := t0, lastActivityTime := t0\<rparr>)
       \<and> (emitted (tick buttonLevel now (b\<lparr>state := 2, startTime := t0, lastActivityTime := t0\<rparr>))
            = CLICK_STATE
          \<longleftrightarrow> now > t0 + scast (clickTicks b))
       \<and> (state c = 1 \<and> buttonLevel = buttonReleased c \<longrightarrow>
            tick buttonLevel now c = (NO_EVENT, [], c\<lparr>state := 2\<rparr>)
            \<and> startTime (object (tick buttonLevel now c)) = startTime c
            \<and> (emitted (tick buttonLevel' now' (object (tick buttonLevel now c))) = CLICK_STATE
                 \<longleftrightarrow> now' > startTime c + scast (clickTicks c)))"
proof -
  let ?b1 = "b\<lparr>state := 1, startTime := t0, lastActivityTime := t0\<rparr>"
  let ?b2 = "b\<lparr>state := 2, startTime := t0, lastActivityTime := t0\<rparr>"
  have press: "tick (buttonPressed b) t0 b = (PRESSED_STATE, [], ?b1)"
    using assms(1) by (simp add: tick_def Let_def)
  have holding: "run (map (Tick (buttonPressed b)) held) ?b1
                  = (replicate (length held) NO_EVENT, [], ?b1)"
    using assms(2,3) by (intro hold_in_state_1) simp_all
  have release: "tick (buttonReleased b) t1 ?b1 = (NO_EVENT, [], ?b2)"
    by (simp add: tick_def Let_def)
  have waiting: "run (map (Tick (buttonReleased b)) waits) ?b2
                  = (replicate (length waits) NO_EVENT, [], ?b2)"
    using assms(2,4) by (intro wait_in_state_2) simp_all
  have whole: "run (Tick (buttonPressed b) t0 # map (Tick (buttonPressed b)) held
              @ Tick (buttonReleased b) t1 # map (Tick (buttonReleased b)) waits) b
          = (PRESSED_STATE # replicate (length held) NO_EVENT
               @ NO_EVENT # replicate (length waits) NO_EVENT, [], ?b2)"
    by (simp add: press run_append holding release waiting)
  have click: "emitted (tick buttonLevel now ?b2) = CLICK_STATE
                 \<longleftrightarrow> now > t0 + scast (clickTicks b)"
    by (simp add: tick_def Let_def)
  have step: "state c = 1 \<and> buttonLevel = buttonReleased c \<longrightarrow>
            tick buttonLevel now c = (NO_EVENT, [], c\<lparr>state := 2\<rparr>)
            \<and> startTime (object (tick buttonLevel now c)) = startTime c
            \<and> (emitted (tick buttonLevel' now' (object (tick buttonLevel now c))) = CLICK_STATE
                 \<longleftrightarrow> now' > startTime c + scast (clickTicks c))"
    by (simp add: tick_def Let_def)
  from whole click step show ?thesis by blast
qed

theorem C1_startTime_kept_on_release_witness:
  "state example_button = 0
   \<and> buttonPressed example_button = HIGH \<and> buttonReleased example_button = LOW
   \<and> startTime example_button = 0
   \<and> clickTicks example_button = 250 \<and> pressTicks example_button = 600
   \<and> emitted (run [Tick HIGH 1000, Tick HIGH 1100, Tick HIGH 1200,
                   Tick LOW 1230, Tick LOW 1240, Tick LOW 1250] example_button)
       = [PRESSED_STATE, NO_EVENT, NO_EVENT, NO_EVENT, NO_EVENT, NO_EVENT]
   \<and> state (object (run [Tick HIGH 1000, Tick HIGH 1100, Tick HIGH 1200,
                         Tick LOW 1230, Tick LOW 1240, Tick LOW 1250] example_button)) = 2
   \<and> startTime (object (run [Tick HIGH 1000, Tick HIGH 1100, Tick HIGH 1200,
                             Tick LOW 1230, Tick LOW 1240, Tick LOW 1250] example_button)) = 1000
   \<and> emitted (tick LOW 1251 (object (run [Tick HIGH 1000, Tick HIGH 1100, Tick HIGH 1200,
                             Tick LOW 1230, Tick LOW 1240, Tick LOW 1250] example_button)))
       = CLICK_STATE
   \<and> state (object (tick HIGH 1000 example_button)) = 1
   \<and> startTime (object (tick LOW 1230 (object (tick HIGH 1000 example_button)))) = 1000"
  using C1_startTime_kept_on_release
    [where b = example_button and ?t0.0 = 1000 and held = "[1100, 1200]" and ?t1.0 = 1230
       and waits = "[1240, 1250]" and buttonLevel = LOW and now = 1251
       and c = "object (tick HIGH 1000 example_button)" and buttonLevel' = LOW and now' = 1251]
    C1_startTime_kept_on_release
    [where b = example_button and ?t0.0 = 1000 and held = "[1100, 1200]" and ?t1.0 = 1230
       and waits = "[1240, 1250]" and buttonLevel = LOW and now = 1230
       and c = "object (tick HIGH 1000 example_button)" and buttonLevel' = LOW and now' = 1251]
  by (simp add: tick_def Let_def example_defs)

text \<open>
  C1 (as stated) fails: the button is pressed at 1000 and released at 1050. After the tick at
  1050 the machine is in state 2 and \<open>startTime\<close> is 1000, not 1050. A tick at 1260 then
  reports the click, 210 ms after the release, although 1260 is not beyond 1050 + 250.
\<close>

theorem C1_counterexample:
  "state (object (run [Tick HIGH 1000] example_button)) = 1
   \<and> buttonReleased (object (run [Tick HIGH 1000] example_button)) = LOW
   \<and> state (object (run [Tick HIGH 1000, Tick LOW 1050] example_button)) = 2
   \<and> startTime (object (run [Tick HIGH 1000, Tick LOW 1050] example_button)) = 1000
   \<and> startTime (object (run [Tick HIGH 1000, Tick LOW 1050] example_button)) \<noteq> 1050
   \<and> emitted (run [Tick HIGH 1000, Tick LOW 1050, Tick LOW 1260] example_button)
       = [PRESSED_STATE, NO_EVENT, CLICK_STATE]
   \<and> \<not> (1260 :: c_ulong) > 1050 + scast (clickTicks example_button)"
  by (simp add: tick_def Let_def example_defs)

text \<open>
  C2 (as the code has it). In state 2 the timeout is tested before the level of the pin.
  With a pressed sample the tick reports the click, calls the click handler and goes back to
  state 0 when \<open>now\<close> is strictly beyond \<open>startTime + clickTicks\<close>; otherwise it takes the
  press as the start of the second click: state 3, no event, no handler. This is so when
  \<open>now\<close> equals \<open>startTime + clickTicks\<close>.
\<close>

theorem C2_timeout_before_press:
  assumes "state b = 2" and "buttonLevel = buttonPressed b"
  shows "tick buttonLevel now b =
          (if now > startTime b + scast (clickTicks b)
           then (CLICK_STATE, invoke (clickFunc b), b\<lparr>state := 0, lastActivityTime := now\<rparr>)
           else (NO_EVENT, [], b\<lparr>state := 3\<rparr>))
       \<and> tick buttonLevel (startTime b + scast (clickTicks b)) b = (NO_EVENT, [], b\<lparr>state := 3\<rparr>)"
  using assms by (simp add: tick_def Let_def)

theorem C2_timeout_before_press_witness:
  "state (object (run [Tick HIGH 0, Tick LOW 50] example_button)) = 2
   \<and> HIGH = buttonPressed (object (run [Tick HIGH 0, Tick LOW 50] example_button))
   \<and> emitted (tick HIGH 251 (object (run [Tick HIGH 0, Tick LOW 50] example_button))) = CLICK_STATE
   \<and> state (object (tick HIGH 251 (object (run [Tick HIGH 0, Tick LOW 50] example_button)))) = 0
   \<and> emitted (tick HIGH 250 (object (run [Tick HIGH 0, Tick LOW 50] example_button))) = NO_EVENT
   \<and> state (object (tick HIGH 250 (object (run [Tick HIGH 0, Tick LOW 50] example_button)))) = 3"
  using C2_timeout_before_press [of "object (run [Tick HIGH 0, Tick LOW 50] example_button)" HIGH 251]
        C2_timeout_before_press [of "object (run [Tick HIGH 0, Tick LOW 50] example_button)" HIGH 250]
  by (simp add: tick_def Let_def example_defs)

text \<open>
  C2 (as stated) fails: pressed at 0, released at 50, pressed again at 250, which is
  \<open>startTime + clickTicks\<close> exactly. The tick at 250 reports no event and goes to state 3;
  no click is reported.
\<close>

theorem C2_counterexample:
  "state (object (run [Tick HIGH 0, Tick LOW 50] example_button)) = 2
   \<and> startTime (object (run [Tick HIGH 0, Tick LOW 50] example_button))
       + scast (clickTicks (object (run [Tick HIGH 0, Tick LOW 50] example_button))) = 250
   \<and> buttonPressed (object (run [Tick HIGH 0, Tick LOW 50] example_button)) = HIGH
   \<and> emitted (run [Tick HIGH 0, Tick LOW 50, Tick HIGH 250] example_button)
       = [PRESSED_STATE, NO_EVENT, NO_EVENT]
   \<and> called (run [Tick HIGH 0, Tick LOW 50, Tick HIGH 250] example_button) = []
   \<and> state (object (run [Tick HIGH 0, Tick LOW 50, Tick HIGH 250] example_button)) = 3"
  by (simp add: tick_def Let_def example_defs)

section \<open>Handlers\<close>

text \<open>
  A tick calls registered handlers only and leaves the registrations as they are. On an
  object that was constructed and then only ticked, five of the six members are \<open>NULL\<close>,
  so every call made is a call of what the member \<open>clickFunc\<close> held before construction.
\<close>

lemma tick_handlers_kept:
  "clickFunc (object (tick l t b)) = clickFunc b
   \<and> doubleClickFunc (object (tick l t b)) = doubleClickFunc b
   \<and> pressFunc (object (tick l t b)) = pressFunc b
   \<and> longPressStartFunc (object (tick l t b)) = longPressStartFunc b
   \<and> longPressStopFunc (object (tick l t b)) = longPressStopFunc b
   \<and> duringLongPressFunc (object (tick l t b)) = duringLongPressFunc b"
  by (simp add: tick_def Let_def)

lemma tick_calls_click_only:
  assumes "doubleClickFunc b = NULL" and "pressFunc b = NULL" and "longPressStartFunc b = NULL"
    and "longPressStopFunc b = NULL" and "duringLongPressFunc b = NULL"
  shows "set (called (tick l t b)) \<subseteq> {clickFunc b} - {NULL}"
  using assms by (auto simp: tick_def Let_def invoke_def)

lemma ticks_call_click_only:
  assumes "doubleClickFunc b = NULL" and "pressFunc b = NULL" and "longPressStartFunc b = NULL"
    and "longPressStopFunc b = NULL" and "duringLongPressFunc b = NULL"
  shows "set (called (run (map (\<lambda>s. Tick (fst s) (snd s)) samples) b)) \<subseteq> {clickFunc b} - {NULL}"
  using assms
proof (induction samples arbitrary: b)
  case Nil
  then show ?case by simp
next
  case (Cons x samples)
  obtain l t where x: "x = (l, t)" by (cases x)
  let ?b' = "object (tick l t b)"
  have kept: "clickFunc ?b' = clickFunc b" "doubleClickFunc ?b' = NULL" "pressFunc ?b' = NULL"
    "longPressStartFunc ?b' = NULL" "longPressStopFunc ?b' = NULL" "duringLongPressFunc ?b' = NULL"
    using Cons.prems tick_handlers_kept [of l t b] by simp_all
  have first: "set (called (tick l t b)) \<subseteq> {clickFunc b} - {NULL}"
    using Cons.prems by (rule tick_calls_click_only)
  have rest: "set (called (run (map (\<lambda>s. Tick (fst s) (snd s)) samples) ?b')) \<subseteq> {clickFunc b} - {NULL}"
    using Cons.IH [OF kept(2-6)] kept(1) by simp
  show ?case
    using first rest by (simp add: x case_prod_beta)
qed

lemma fresh_ticks_call_click_only:
  "set (called (run (map (\<lambda>s. Tick (fst s) (snd s)) samples) (OneButton_ctor p a storage)))
     \<subseteq> {clickFunc storage} - {NULL}"
proof -
  have "clickFunc (OneButton_ctor p a storage) = clickFunc storage"
    by (simp add: OneButton_ctor_def Let_def)
  moreover have "set (called (run (map (\<lambda>s. Tick (fst s) (snd s)) samples) (OneButton_ctor p a storage)))
     \<subseteq> {clickFunc (OneButton_ctor p a storage)} - {NULL}"
    by (rule ticks_call_click_only) (simp_all add: OneButton_ctor_def Let_def)
  ultimately show ?thesis by simp
qed

text \<open>
  C3. The constructor sets five of the six handler members to \<open>NULL\<close> and does not assign
  \<open>clickFunc\<close>. A button constructed in stale memory, with no handler ever registered, is
  pressed at 0 and released at 50; the tick at 251 reports the click and, since the member
  still holds the stale address 4660, calls it.
\<close>

theorem C3_click_handler_not_initialised:
  "clickFunc stack_button = 4660
   \<and> clickFunc stack_button \<noteq> NULL
   \<and> doubleClickFunc stack_button = NULL
   \<and> pressFunc stack_button = NULL
   \<and> longPressStartFunc stack_button = NULL
   \<and> longPressStopFunc stack_button = NULL
   \<and> duringLongPressFunc stack_button = NULL
   \<and> emitted (run [Tick HIGH 0, Tick LOW 50, Tick LOW 251] stack_button)
       = [PRESSED_STATE, NO_EVENT, CLICK_STATE]
   \<and> called (run [Tick HIGH 0, Tick LOW 50, Tick LOW 251] stack_button) = [4660]"
  by (simp add: tick_def Let_def example_defs invoke_def NULL_def)

section \<open>Scenarios and invariants\<close>

text \<open>
  C4. A freshly constructed button has the thresholds 250 and 600. With a double-click
  handler \<open>h\<close> registered and the samples pressed at 0, released at 50, pressed at 100,
  released at 150, the four ticks return Pressed, nothing, nothing, DoubleClick; the only
  handler called is \<open>h\<close>, once; no tick returns Click.
\<close>

theorem C4_double_click_scenario:
  assumes "h \<noteq> NULL"
  shows "let b = OneButton_ctor p a storage;
             pressed = buttonPressed b;
             released = buttonReleased b;
             r = run [Tick pressed 0, Tick released 50, Tick pressed 100, Tick released 150]
                     (attachDoubleClick h b)
         in clickTicks b = 250 \<and> pressTicks b = 600
          \<and> emitted (tick pressed 0 (attachDoubleClick h b)) = PRESSED_STATE
          \<and> emitted r = [PRESSED_STATE, NO_EVENT, NO_EVENT, DOUBLE_CLICK_STATE]
          \<and> called r = [h]
          \<and> CLICK_STATE \<notin> set (emitted r)"
  using assms by (simp add: tick_def Let_def OneButton_ctor_def attachDoubleClick_def invoke_def)

theorem C4_double_click_scenario_witness:
  "(44 :: callbackFunction) \<noteq> NULL
   \<and> emitted (run [Tick HIGH 0, Tick LOW 50, Tick HIGH 100, Tick LOW 150]
                (attachDoubleClick 44 example_button))
       = [PRESSED_STATE, NO_EVENT, NO_EVENT, DOUBLE_CLICK_STATE]
   \<and> called (run [Tick HIGH 0, Tick LOW 50, Tick HIGH 100, Tick LOW 150]
                (attachDoubleClick 44 example_button)) = [44]"
  using C4_double_click_scenario [of 44 2 0 static_storage]
  by (simp add: tick_def Let_def example_defs attachDoubleClick_def invoke_def NULL_def)

text \<open>
  C5. After construction and any sequence of calls (ticks with any samples, threshold
  settings, registrations) the member \<open>state\<close> is one of 0 (idle), 1 (press detected),
  2 (waiting for the second press), 3 (waiting for the second release), 6 (long press
  active). \<open>tick\<close> is a total function, and from each of the five states every sample leads
  to one of the five states.
\<close>

theorem C5_state_enumerated:
  "state (object (run acts (OneButton_ctor p a storage))) \<in> {0, 1, 2, 3, 6}
   \<and> (state b \<in> {0, 1, 2, 3, 6} \<longrightarrow> state (object (tick buttonLevel now b)) \<in> {0, 1, 2, 3, 6})"
proof
  have "button_inv (object (run acts (OneButton_ctor p a storage)))"
    by (rule run_inv) (rule ctor_inv)
  then show "state (object (run acts (OneButton_ctor p a storage))) \<in> {0, 1, 2, 3, 6}"
    by (auto simp: button_inv_def)
next
  show "state b \<in> {0, 1, 2, 3, 6} \<longrightarrow> state (object (tick buttonLevel now b)) \<in> {0, 1, 2, 3, 6}"
    by (auto simp: tick_def Let_def)
qed

theorem C5_state_enumerated_witness:
  "state (object (run [Tick HIGH 0, SetPressTicks 100, Tick HIGH 101] stack_button)) = 6
   \<and> state (object (run [Tick HIGH 0, SetPressTicks 100, Tick HIGH 101] stack_button)) \<in> {0, 1, 2, 3, 6}
   \<and> state (object (tick LOW 150 (object (run [Tick HIGH 0, SetPressTicks 100, Tick HIGH 101] stack_button))))
       \<in> {0, 1, 2, 3, 6}"
  using C5_state_enumerated [of "[Tick HIGH 0, SetPressTicks 100, Tick HIGH 101]" 2 0 stale_storage
          "object (run [Tick HIGH 0, SetPressTicks 100, Tick HIGH 101] stack_button)" LOW 150]
  by (simp add: tick_def Let_def example_defs config_defs invoke_def NULL_def)

text \<open>
  C6. A tick that returns an event sets \<open>lastActivityTime\<close> to the time it sampled; a tick
  that returns no event leaves it as it was. Across any further calls whose ticks all
  return no event (threshold settings and registrations in between included) the value read
  by \<open>getLastActivityTime\<close> stays what that tick left, so it is the time of the most recent
  tick that returned an event.
\<close>

theorem C6_lastActivityTime:
  assumes "\<forall>e\<in>set (emitted (run acts (object (tick buttonLevel now b)))). e = NO_EVENT"
  shows "getLastActivityTime (object (tick buttonLevel now b)) =
           (if emitted (tick buttonLevel now b) = NO_EVENT then getLastActivityTime b else now)
       \<and> getLastActivityTime (object (run acts (object (tick buttonLevel now b)))) =
           getLastActivityTime (object (tick buttonLevel now b))"
  using run_quiet_lastActivityTime [OF assms]
  by (simp add: getLastActivityTime_def tick_lastActivityTime)

theorem C6_lastActivityTime_witness:
  "emitted (run [Tick HIGH 100, Tick LOW 150, SetClickTicks 300, Tick LOW 260]
                (object (tick HIGH 10 example_button))) = [NO_EVENT, NO_EVENT, NO_EVENT]
   \<and> emitted (tick HIGH 10 example_button) = PRESSED_STATE
   \<and> getLastActivityTime example_button = 0
   \<and> getLastActivityTime (object (tick HIGH 10 example_button)) = 10
   \<and> getLastActivityTime (object (run [Tick HIGH 100, Tick LOW 150, SetClickTicks 300, Tick LOW 260]
                                       (object (tick HIGH 10 example_button)))) = 10"
  using C6_lastActivityTime [of "[Tick HIGH 100, Tick LOW 150, SetClickTicks 300, Tick LOW 260]"
          HIGH 10 example_button]
  by (simp add: tick_def Let_def example_defs config_defs getLastActivityTime_def)

text \<open>
  C7. In state 1, on a pressed sample taken after \<open>startTime + pressTicks\<close>, the tick goes
  to state 6, sets the long-press flag and returns LongPressStart. Within this one tick it
  calls the registered handlers in the order generic press, long-press start, during long
  press; with all three registered the calls are exactly these three, in this order.
\<close>

theorem C7_long_press_start_order:
  assumes "state b = 1" and "buttonLevel = buttonPressed b" and "buttonLevel \<noteq> buttonReleased b"
    and "now > startTime b + scast (pressTicks b)"
  shows "tick buttonLevel now b =
          (LONG_PRESS_START_STATE,
           invoke (pressFunc b) @ invoke (longPressStartFunc b) @ invoke (duringLongPressFunc b),
           b\<lparr>isLongPressed := True, state := 6, lastActivityTime := now\<rparr>)
       \<and> (pressFunc b \<noteq> NULL \<and> longPressStartFunc b \<noteq> NULL \<and> duringLongPressFunc b \<noteq> NULL
            \<longrightarrow> called (tick buttonLevel now b) =
                  [pressFunc b, longPressStartFunc b, duringLongPressFunc b])"
  using assms by (simp add: tick_def Let_def invoke_def)

theorem C7_long_press_start_order_witness:
  "state (object (run [AttachPress 11, AttachLongPressStart 22, AttachDuringLongPress 33, Tick HIGH 0]
                      example_button)) = 1
   \<and> HIGH = buttonPressed (object (run [AttachPress 11, AttachLongPressStart 22,
                                       AttachDuringLongPress 33, Tick HIGH 0] example_button))
   \<and> HIGH \<noteq> buttonReleased (object (run [AttachPress 11, AttachLongPressStart 22,
                                          AttachDuringLongPress 33, Tick HIGH 0] example_button))
   \<and> emitted (tick HIGH 601 (object (run [AttachPress 11, AttachLongPressStart 22,
                                         AttachDuringLongPress 33, Tick HIGH 0] example_button)))
       = LONG_PRESS_START_STATE
   \<and> called (tick HIGH 601 (object (run [AttachPress 11, AttachLongPressStart 22,
                                        AttachDuringLongPress 33, Tick HIGH 0] example_button)))
       = [11, 22, 33]
   \<and> state (object (tick HIGH 601 (object (run [AttachPress 11, AttachLongPressStart 22,
                                        AttachDuringLongPress 33, Tick HIGH 0] example_button)))) = 6"
  using C7_long_press_start_order
    [of "object (run [AttachPress 11, AttachLongPressStart 22, AttachDuringLongPress 33, Tick HIGH 0]
                     example_button)" HIGH 601]
  by (simp add: tick_def Let_def example_defs config_defs invoke_def NULL_def)

text \<open>
  C8. Setting a threshold or registering a handler leaves the state, the start time, the
  long-press flag and the last activity time as they are. A threshold setter changes its
  threshold and no other member; the captured start time stays, and the next comparison of
  a tick is made with the new threshold.
\<close>

theorem C8_configuration_frame:
  "interaction_state (setClickTicks n b) = interaction_state b
   \<and> interaction_state (setPressTicks n b) = interaction_state b
   \<and> interaction_state (attachClick f b) = interaction_state b
   \<and> interaction_state (attachDoubleClick f b) = interaction_state b
   \<and> interaction_state (attachPress f b) = interaction_state b
   \<and> interaction_state (attachLongPressStart f b) = interaction_state b
   \<and> interaction_state (attachLongPressStop f b) = interaction_state b
   \<and> interaction_state (attachDuringLongPress f b) = interaction_state b
   \<and> clickTicks (setClickTicks n b) = n
   \<and> (setClickTicks n b)\<lparr>clickTicks := clickTicks b\<rparr> = b
   \<and> pressTicks (setPressTicks n b) = n
   \<and> (setPressTicks n b)\<lparr>pressTicks := pressTicks b\<rparr> = b
   \<and> (state b = 2 \<longrightarrow>
        (emitted (tick buttonLevel now (setClickTicks n b)) = CLICK_STATE
           \<longleftrightarrow> now > startTime b + scast n))
   \<and> (state b = 1 \<and> buttonLevel = buttonPressed b \<and> buttonLevel \<noteq> buttonReleased b \<longrightarrow>
        (emitted (tick buttonLevel now (setPressTicks n b)) = LONG_PRESS_START_STATE
           \<longleftrightarrow> now > startTime b + scast n))"
  by (simp add: interaction_state_def config_defs tick_def Let_def)

theorem C8_configuration_frame_witness:
  "state (object (run [Tick HIGH 0, Tick LOW 50] example_button)) = 2
   \<and> emitted (tick LOW 200 (object (run [Tick HIGH 0, Tick LOW 50] example_button))) = NO_EVENT
   \<and> emitted (tick LOW 200 (setClickTicks 100 (object (run [Tick HIGH 0, Tick LOW 50] example_button))))
       = CLICK_STATE
   \<and> interaction_state (setClickTicks 100 (object (run [Tick HIGH 0, Tick LOW 50] example_button)))
       = (2, 0, False, 0)
   \<and> state (object (run [Tick HIGH 0] example_button)) = 1
   \<and> HIGH = buttonPressed (object (run [Tick HIGH 0] example_button))
   \<and> HIGH \<noteq> buttonReleased (object (run [Tick HIGH 0] example_button))
   \<and> emitted (tick HIGH 200 (setPressTicks 100 (object (run [Tick HIGH 0] example_button))))
       = LONG_PRESS_START_STATE"
  using C8_configuration_frame
          [of 100 "object (run [Tick HIGH 0, Tick LOW 50] example_button)" 0 LOW 200]
        C8_configuration_frame
          [of 100 "object (run [Tick HIGH 0] example_button)" 0 HIGH 200]
  by (simp add: tick_def Let_def example_defs config_defs interaction_state_def)

text \<open>
  C9. After construction and after every sequence of calls, \<open>isLongPressed\<close> answers true
  exactly when the machine is in state 6 (long press active). The flag is set by the tick
  that enters state 6 from state 1 and returns LongPressStart; in state 6 a tick that does
  not see the release sets it again, stays in state 6 and returns DuringLongPress; the tick
  that sees the release clears it, calls the long-press-stop handler, returns LongPressStop
  and goes to state 0. Where the flag mirrors the state before a tick, the tick changes the
  flag only on the entry into state 6 from state 1 and on the exit from state 6 to state 0.
\<close>

theorem C9_isLongPressed_mirrors_state:
  "isLongPressed_query (OneButton_ctor p a storage) = (state (OneButton_ctor p a storage) = 6)
   \<and> \<not> isLongPressed_query (OneButton_ctor p a storage)
   \<and> isLongPressed_query (object (run acts (OneButton_ctor p a storage))) =
       (state (object (run acts (OneButton_ctor p a storage))) = 6)
   \<and> (state b = 1 \<and> buttonLevel = buttonPressed b \<and> buttonLevel \<noteq> buttonReleased b
        \<and> now > startTime b + scast (pressTicks b) \<longrightarrow>
        emitted (tick buttonLevel now b) = LONG_PRESS_START_STATE
        \<and> object (tick buttonLevel now b)
            = b\<lparr>isLongPressed := True, state := 6, lastActivityTime := now\<rparr>
        \<and> isLongPressed_query (object (tick buttonLevel now b))
        \<and> state (object (tick buttonLevel now b)) = 6)
   \<and> (state b = 6 \<and> buttonLevel \<noteq> buttonReleased b \<longrightarrow>
        tick buttonLevel now b
          = (DURING_LONG_PRESS_STATE, invoke (duringLongPressFunc b),
             b\<lparr>isLongPressed := True, lastActivityTime := now\<rparr>)
        \<and> isLongPressed_query (object (tick buttonLevel now b))
        \<and> state (object (tick buttonLevel now b)) = 6)
   \<and> (state b = 6 \<and> buttonLevel = buttonReleased b \<longrightarrow>
        tick buttonLevel now b
          = (LONG_PRESS_STOP_STATE, invoke (longPressStopFunc b),
             b\<lparr>isLongPressed := False, state := 0, lastActivityTime := now\<rparr>)
        \<and> \<not> isLongPressed_query (object (tick buttonLevel now b))
        \<and> state (object (tick buttonLevel now b)) = 0)
   \<and> (isLongPressed b = (state b = 6) \<longrightarrow>
        (isLongPressed_query (object (tick buttonLevel now b)) \<noteq> isLongPressed_query b)
          = (state b = 1 \<and> state (object (tick buttonLevel now b)) = 6
             \<or> state b = 6 \<and> state (object (tick buttonLevel now b)) = 0))"
proof -
  have fresh: "button_inv (OneButton_ctor p a storage)"
    by (rule ctor_inv)
  have later: "button_inv (object (run acts (OneButton_ctor p a storage)))"
    by (rule run_inv) (rule ctor_inv)
  have mirror: "isLongPressed_query (OneButton_ctor p a storage) = (state (OneButton_ctor p a storage) = 6)
     \<and> \<not> isLongPressed_query (OneButton_ctor p a storage)
     \<and> isLongPressed_query (object (run acts (OneButton_ctor p a storage))) =
         (state (object (run acts (OneButton_ctor p a storage))) = 6)"
    using fresh later
    by (simp add: button_inv_def isLongPressed_query_def) (simp add: OneButton_ctor_def Let_def)
  have enter: "state b = 1 \<and> buttonLevel = buttonPressed b \<and> buttonLevel \<noteq> buttonReleased b
        \<and> now > startTime b + scast (pressTicks b) \<longrightarrow>
        emitted (tick buttonLevel now b) = LONG_PRESS_START_STATE
        \<and> object (tick buttonLevel now b)
            = b\<lparr>isLongPressed := True, state := 6, lastActivityTime := now\<rparr>
        \<and> isLongPressed_query (object (tick buttonLevel now b))
        \<and> state (object (tick buttonLevel now b)) = 6"
    by (simp add: tick_def Let_def isLongPressed_query_def)
  have during: "state b = 6 \<and> buttonLevel \<noteq> buttonReleased b \<longrightarrow>
        tick buttonLevel now b
          = (DURING_LONG_PRESS_STATE, invoke (duringLongPressFunc b),
             b\<lparr>isLongPressed := True, lastActivityTime := now\<rparr>)
        \<and> isLongPressed_query (object (tick buttonLevel now b))
        \<and> state (object (tick buttonLevel now b)) = 6"
    by (simp add: tick_def Let_def isLongPressed_query_def)
  have leave: "state b = 6 \<and> buttonLevel = buttonReleased b \<longrightarrow>
        tick buttonLevel now b
          = (LONG_PRESS_STOP_STATE, invoke (longPressStopFunc b),
             b\<lparr>isLongPressed := False, state := 0, lastActivityTime := now\<rparr>)
        \<and> \<not> isLongPressed_query (object (tick buttonLevel now b))
        \<and> state (object (tick buttonLevel now b)) = 0"
    by (simp add: tick_def Let_def isLongPressed_query_def)
  have change: "isLongPressed b = (state b = 6) \<longrightarrow>
        (isLongPressed_query (object (tick buttonLevel now b)) \<noteq> isLongPressed_query b)
          = (state b = 1 \<and> state (object (tick buttonLevel now b)) = 6
             \<or> state b = 6 \<and> state (object (tick buttonLevel now b)) = 0)"
    by (auto simp: tick_def Let_def isLongPressed_query_def)
  from mirror enter during leave change show ?thesis by blast
qed

theorem C9_isLongPressed_mirrors_state_witness:
  "state (object (run [AttachLongPressStop 55, Tick HIGH 1000] example_button)) = 1
   \<and> \<not> isLongPressed_query (object (run [AttachLongPressStop 55, Tick HIGH 1000] example_button))
   \<and> buttonPressed (object (run [AttachLongPressStop 55, Tick HIGH 1000] example_button)) = HIGH
   \<and> buttonReleased (object (run [AttachLongPressStop 55, Tick HIGH 1000] example_button)) = LOW
   \<and> emitted (tick HIGH 1601 (object (run [AttachLongPressStop 55, Tick HIGH 1000] example_button)))
       = LONG_PRESS_START_STATE
   \<and> isLongPressed_query
       (object (tick HIGH 1601 (object (run [AttachLongPressStop 55, Tick HIGH 1000] example_button))))
   \<and> state (object (run [AttachLongPressStop 55, Tick HIGH 1000, Tick HIGH 1601] example_button)) = 6
   \<and> emitted (tick HIGH 1700
        (object (run [AttachLongPressStop 55, Tick HIGH 1000, Tick HIGH 1601] example_button)))
       = DURING_LONG_PRESS_STATE
   \<and> isLongPressed_query (object (tick HIGH 1700
        (object (run [AttachLongPressStop 55, Tick HIGH 1000, Tick HIGH 1601] example_button))))
   \<and> tick LOW 1750
        (object (run [AttachLongPressStop 55, Tick HIGH 1000, Tick HIGH 1601] example_button))
       = (LONG_PRESS_STOP_STATE, [55],
          (object (run [AttachLongPressStop 55, Tick HIGH 1000, Tick HIGH 1601] example_button))
            \<lparr>isLongPressed := False, state := 0, lastActivityTime := 1750\<rparr>)
   \<and> \<not> isLongPressed_query (object (tick LOW 1750
        (object (run [AttachLongPressStop 55, Tick HIGH 1000, Tick HIGH 1601] example_button))))"
  using C9_isLongPressed_mirrors_state
    [where p = 2 and a = 0 and storage = static_storage and acts = "[]"
       and b = "object (run [AttachLongPressStop 55, Tick HIGH 1000] example_button)"
       and buttonLevel = HIGH and now = 1601]
    C9_isLongPressed_mirrors_state
    [where p = 2 and a = 0 and storage = static_storage and acts = "[]"
       and b = "object (run [AttachLongPressStop 55, Tick HIGH 1000, Tick HIGH 1601] example_button)"
       and buttonLevel = HIGH and now = 1700]
    C9_isLongPressed_mirrors_state
    [where p = 2 and a = 0 and storage = static_storage and acts = "[]"
       and b = "object (run [AttachLongPressStop 55, Tick HIGH 1000, Tick HIGH 1601] example_button)"
       and buttonLevel = LOW and now = 1750]
  by (simp add: tick_def Let_def example_defs config_defs invoke_def NULL_def isLongPressed_query_def)

section \<open>The second press\<close>

lemma hold_in_state_3:
  assumes "state b = 3" and "held \<noteq> buttonReleased b"
  shows "run (map (Tick held) moments) b = (replicate (length moments) NO_EVENT, [], b)"
proof (induction moments)
  case Nil
  show ?case by simp
next
  case (Cons t moments)
  have "tick held t b = (NO_EVENT, [], b)"
    using assms by (simp add: tick_def Let_def)
  then show ?case
    using Cons.IH by simp
qed

text \<open>
  C10. In state 3 (second press taken) no time is compared. While the pin reads anything but
  released, for any number of ticks at any moments, every tick returns no event, calls no
  handler and leaves the object as it is: no LongPressStart, and the long-press flag keeps
  its value. A released sample at any time returns DoubleClick, calls the double-click handler
  (once, when one is registered) and returns to state 0.
\<close>

theorem C10_no_deadline_for_second_release:
  assumes "state b = 3" and "held \<noteq> buttonReleased b"
  shows "run (map (Tick held) moments) b = (replicate (length moments) NO_EVENT, [], b)
       \<and> tick (buttonReleased b) now b =
           (DOUBLE_CLICK_STATE, invoke (doubleClickFunc b), b\<lparr>state := 0, lastActivityTime := now\<rparr>)
       \<and> run (map (Tick held) moments @ [Tick (buttonReleased b) now]) b =
           (replicate (length moments) NO_EVENT @ [DOUBLE_CLICK_STATE],
            invoke (doubleClickFunc b),
            b\<lparr>state := 0, lastActivityTime := now\<rparr>)"
proof -
  have hold: "run (map (Tick held) moments) b = (replicate (length moments) NO_EVENT, [], b)"
    using assms by (rule hold_in_state_3)
  have release: "tick (buttonReleased b) now b =
      (DOUBLE_CLICK_STATE, invoke (doubleClickFunc b), b\<lparr>state := 0, lastActivityTime := now\<rparr>)"
    using assms(1) by (simp add: tick_def Let_def)
  have "run (map (Tick held) moments @ [Tick (buttonReleased b) now]) b =
      (replicate (length moments) NO_EVENT @ [DOUBLE_CLICK_STATE],
       invoke (doubleClickFunc b),
       b\<lparr>state := 0, lastActivityTime := now\<rparr>)"
    by (simp add: run_append hold release)
  with hold release show ?thesis by simp
qed

theorem C10_no_deadline_for_second_release_witness:
  "state (object (run [AttachDoubleClick 44, Tick HIGH 0, Tick LOW 50, Tick HIGH 100] example_button)) = 3
   \<and> HIGH \<noteq> buttonReleased (object (run [AttachDoubleClick 44, Tick HIGH 0, Tick LOW 50,
                                           Tick HIGH 100] example_button))
   \<and> emitted (run (map (Tick HIGH) [1000, 100000] @ [Tick LOW 4000000])
                  (object (run [AttachDoubleClick 44, Tick HIGH 0, Tick LOW 50, Tick HIGH 100]
                               example_button)))
       = [NO_EVENT, NO_EVENT, DOUBLE_CLICK_STATE]
   \<and> called (run (map (Tick HIGH) [1000, 100000] @ [Tick LOW 4000000])
                 (object (run [AttachDoubleClick 44, Tick HIGH 0, Tick LOW 50, Tick HIGH 100]
                              example_button)))
       = [44]
   \<and> state (object (run (map (Tick HIGH) [1000, 100000] @ [Tick LOW 4000000])
                 (object (run [AttachDoubleClick 44, Tick HIGH 0, Tick LOW 50, Tick HIGH 100]
                              example_button)))) = 0
   \<and> \<not> isLongPressed (object (run (map (Tick HIGH) [1000, 100000])
                 (object (run [AttachDoubleClick 44, Tick HIGH 0, Tick LOW 50, Tick HIGH 100]
                              example_button))))"
  using C10_no_deadline_for_second_release
    [of "object (run [AttachDoubleClick 44, Tick HIGH 0, Tick LOW 50, Tick HIGH 100] example_button)"
        HIGH "[1000, 100000]" 4000000]
  by (simp add: tick_def Let_def example_defs config_defs invoke_def NULL_def)

end
